theory Spec2Isabelle
  imports Complex_Main
begin

section \<open>Polynomial utilities (src/utils/polynomial\_utils.py)\<close>

text \<open>
  Python floats are modelled as exact reals throughout: the properties below are
  statements of exact arithmetic. Coefficient lists are given highest degree first.
\<close>

text \<open>
  \<^verbatim>\<open>horners_rule\<close>: an empty list yields 0; otherwise the accumulator starts at
  \<^verbatim>\<open>coefficients[0]\<close> and the loop runs over \<^verbatim>\<open>coefficients[1:]\<close>.
\<close>

definition horners_rule :: "real list \<Rightarrow> real \<Rightarrow> real" where
  "horners_rule coefficients x =
     (case coefficients of
        [] \<Rightarrow> 0
      | c # cs \<Rightarrow> foldl (\<lambda>result coefficient. result * x + coefficient) c cs)"

text \<open>
  The direct evaluation the specification compares Horner's rule with: the sum of
  \<open>a\<^sub>i * x ^ (n - i)\<close> over the list \<open>[a\<^sub>0, ..., a\<^sub>n]\<close> read highest degree first.
\<close>

definition direct_evaluation :: "real list \<Rightarrow> real \<Rightarrow> real" where
  "direct_evaluation coefficients x =
     (\<Sum>i < length coefficients. coefficients ! i * x ^ (length coefficients - 1 - i))"

text \<open>
  \<^verbatim>\<open>horners_rule_with_derivative\<close>: the value is computed as in \<^verbatim>\<open>horners_rule\<close>;
  the second accumulator starts at \<^verbatim>\<open>coefficients[0]\<close> and runs over
  \<^verbatim>\<open>coefficients[1:-1]\<close> with the same update (the loop index of \<^verbatim>\<open>enumerate\<close> is
  not used by the source).
\<close>

definition horners_rule_with_derivative :: "real list \<Rightarrow> real \<Rightarrow> real \<times> real" where
  "horners_rule_with_derivative coefficients x =
     (case coefficients of
        [] \<Rightarrow> (0, 0)
      | [c] \<Rightarrow> (c, 0)
      | c # cs \<Rightarrow>
          (let p = foldl (\<lambda>p coefficient. p * x + coefficient) c cs;
               p_prime = (if length coefficients > 1
                          then foldl (\<lambda>p_prime coefficient. p_prime * x + coefficient) c (butlast cs)
                          else 0)
           in (p, p_prime)))"

text \<open>
  \<^verbatim>\<open>polynomial_derivative_coefficients\<close>: \<^verbatim>\<open>[0.0]\<close> for at most one coefficient,
  otherwise \<^verbatim>\<open>(degree - i) * coeff\<close> for every coefficient but the constant term.
\<close>

definition polynomial_derivative_coefficients :: "real list \<Rightarrow> real list" where
  "polynomial_derivative_coefficients coefficients =
     (if length coefficients \<le> 1 then [0]
      else (let degree = length coefficients - 1
            in map (\<lambda>(i, coeff). real (degree - i) * coeff)
                 (enumerate 0 (butlast coefficients))))"

text \<open>
  \<^verbatim>\<open>synthetic_division\<close>: the quotient list starts as \<^verbatim>\<open>[coefficients[0]]\<close>, every
  further coefficient appends \<^verbatim>\<open>coefficients[i] + quotient[-1] * root\<close>, and the last
  element is popped as the remainder.
\<close>

definition synthetic_division :: "real list \<Rightarrow> real \<Rightarrow> real list \<times> real" where
  "synthetic_division coefficients root' =
     (case coefficients of
        [] \<Rightarrow> ([], 0)
      | [c] \<Rightarrow> ([], c)
      | c # cs \<Rightarrow>
          (let quotient' = foldl (\<lambda>quotient' ci. quotient' @ [ci + last quotient' * root']) [c] cs
           in (butlast quotient', last quotient')))"

text \<open>
  The two \<^verbatim>\<open>ValueError\<close>s of \<^verbatim>\<open>deflate_polynomial\<close> are told apart by their message:
  the value is not a root (carrying the root and the function value), or the synthetic
  division left a remainder (carrying it).
\<close>

datatype deflation_error = NotARoot real real | NonZeroRemainder real

definition deflate_polynomial :: "real list \<Rightarrow> real \<Rightarrow> real \<Rightarrow> deflation_error + real list" where
  "deflate_polynomial coefficients root' tolerance =
     (let function_value = horners_rule coefficients root'
      in if \<bar>function_value\<bar> > tolerance then Inl (NotARoot root' function_value)
         else (case synthetic_division coefficients root' of
                 (quotient', remainder) \<Rightarrow>
                   if \<bar>remainder\<bar> > tolerance then Inl (NonZeroRemainder remainder)
                   else Inr quotient'))"

section \<open>Solver contract (src/core/base\_solver.py)\<close>

text \<open>
  Exceptions are values. A division of Python floats by zero raises
  \<^verbatim>\<open>ZeroDivisionError\<close>, so every division whose divisor is not a non-zero constant
  goes through \<open>py_div\<close>.
\<close>

datatype exn = TypeError | ValueError | ZeroDivisionError | NameError | AttributeError

definition py_div :: "'a::field \<Rightarrow> 'a \<Rightarrow> exn + 'a" where
  "py_div x y = (if y = 0 then Inl ZeroDivisionError else Inr (x / y))"

text \<open>
  \<^verbatim>\<open>IterationResult\<close>, with its fields prefixed by \<open>ir_\<close>. The per-step
  \<^verbatim>\<open>execution_time\<close> is never passed by the solvers and keeps its default 0.
\<close>

record IterationResult =
  ir_iteration :: int
  ir_x_value :: real
  ir_f_value :: real
  ir_error :: "real option"
  ir_relative_error :: "real option"
  ir_execution_time :: real

text \<open>
  Python lists are objects: the history list of a solver is created once by the
  constructor, mutated in place by \<^verbatim>\<open>append\<close> and \<^verbatim>\<open>clear\<close>, and handed to every
  \<^verbatim>\<open>SolverResult\<close> by reference. The store keeps the contents of every list object; a
  reference is its index in the store.
\<close>

type_synonym ref = nat
type_synonym heap = "IterationResult list list"

definition new_list :: "heap \<Rightarrow> ref \<times> heap" where
  "new_list h = (length h, h @ [[]])"

definition list_append :: "heap \<Rightarrow> ref \<Rightarrow> IterationResult \<Rightarrow> heap" where
  "list_append h l v = h[l := h ! l @ [v]]"

definition list_clear :: "heap \<Rightarrow> ref \<Rightarrow> heap" where
  "list_clear h l = h[l := []]"

text \<open>
  \<^verbatim>\<open>SolverResult\<close>. The wall-clock \<^verbatim>\<open>execution_time\<close> is left out; \<open>root'\<close> is the
  field \<^verbatim>\<open>root\<close>; \<open>iteration_history\<close> is a reference into the store.
\<close>

record 'x SolverResult =
  root' :: 'x
  iterations :: int
  convergence_achieved :: bool
  final_error :: real
  iteration_history :: ref
  method_name :: string
  function_evaluations :: int

text \<open>
  The attributes of a \<^verbatim>\<open>BaseSolver\<close> instance, prefixed by \<open>self_\<close>. The field
  \<open>invocations\<close> is not an attribute of the source: it is an instrument that counts
  every call of the function supplied by the caller, through whichever path the call
  is made.
\<close>

record 'x BaseSolver =
  self_function :: "'x \<Rightarrow> 'x"
  self_tolerance :: real
  self_max_iterations :: int
  self_derivative :: "('x \<Rightarrow> 'x) option"
  self_iteration_history :: ref
  self_function_evaluations :: int
  self_derivative_evaluations :: int
  invocations :: nat

definition BaseSolver_init ::
  "('x \<Rightarrow> 'x) \<Rightarrow> real \<Rightarrow> int \<Rightarrow> ('x \<Rightarrow> 'x) option \<Rightarrow> heap \<Rightarrow> 'x BaseSolver \<times> heap" where
  "BaseSolver_init f tolerance max_iterations derivative h =
     (case new_list h of
        (l, h) \<Rightarrow>
          (\<lparr>self_function = f, self_tolerance = tolerance,
            self_max_iterations = max_iterations, self_derivative = derivative,
            self_iteration_history = l, self_function_evaluations = 0,
            self_derivative_evaluations = 0, invocations = 0\<rparr>, h))"

definition evaluate_function ::
  "('x, 'm) BaseSolver_scheme \<Rightarrow> 'x \<Rightarrow> 'x \<times> ('x, 'm) BaseSolver_scheme" where
  "evaluate_function self x =
     (self_function self x,
      self\<lparr>self_function_evaluations := self_function_evaluations self + 1,
           invocations := invocations self + 1\<rparr>)"

definition reset_counters :: "('x, 'm) BaseSolver_scheme \<Rightarrow> heap \<Rightarrow> ('x, 'm) BaseSolver_scheme \<times> heap" where
  "reset_counters self h =
     (self\<lparr>self_function_evaluations := 0, self_derivative_evaluations := 0\<rparr>,
      list_clear h (self_iteration_history self))"

definition check_convergence :: "('x, 'm) BaseSolver_scheme \<Rightarrow> real \<Rightarrow> real \<Rightarrow> real \<Rightarrow> bool" where
  "check_convergence self x_new x_old f_value =
     (if \<bar>f_value\<bar> < self_tolerance self then True
      else if \<bar>x_new - x_old\<bar> < self_tolerance self * (1 + \<bar>x_new\<bar>) then True
      else False)"

definition calculate_errors :: "real \<Rightarrow> real \<Rightarrow> real \<times> real" where
  "calculate_errors x_new x_old =
     (let absolute_error = \<bar>x_new - x_old\<bar>;
          relative_error = (if x_new \<noteq> 0 then absolute_error / (\<bar>x_new\<bar> + 1 / 10 ^ 15)
                            else absolute_error)
      in (absolute_error, relative_error))"

definition add_iteration_result ::
  "('x, 'm) BaseSolver_scheme \<Rightarrow> heap \<Rightarrow> int \<Rightarrow> real \<Rightarrow> real \<Rightarrow> real option \<Rightarrow> real option \<Rightarrow> heap" where
  "add_iteration_result self h iteration x_value f_value error relative_error =
     list_append h (self_iteration_history self)
       \<lparr>ir_iteration = iteration, ir_x_value = x_value, ir_f_value = f_value,
        ir_error = error, ir_relative_error = relative_error, ir_execution_time = 0\<rparr>"

text \<open>
  \<^verbatim>\<open>for iteration in range(start, stop): body\<close>. One pass of the body returns from the
  enclosing function, raises, breaks out of the loop, or goes on with the next index.
  The loop as a whole has returned, has raised, or has fallen through to the code after
  it (after a \<^verbatim>\<open>break\<close> or at exhaustion) with the variables as they are then.
\<close>

datatype ('r, 's) flow = Return 'r | Raise exn | Break 's | Continue 's

datatype ('r, 's) outcome = Returned 'r | Raised exn | Fell_through 's

function for_range :: "int \<Rightarrow> int \<Rightarrow> (int \<Rightarrow> 's \<Rightarrow> ('r, 's) flow) \<Rightarrow> 's \<Rightarrow> ('r, 's) outcome" where
  "for_range i stop body s =
     (if i < stop then
        (case body i s of
           Return r \<Rightarrow> Returned r
         | Raise e \<Rightarrow> Raised e
         | Break s' \<Rightarrow> Fell_through s'
         | Continue s' \<Rightarrow> for_range (i + 1) stop body s')
      else Fell_through s)"
  by pat_completeness auto
termination
  by (relation "measure (\<lambda>(i, stop, body, s). nat (stop - i))") auto

declare for_range.simps [simp del]

section \<open>Bisection (src/algorithms/bisection.py)\<close>

record BisectionSolver = "real BaseSolver" +
  bisection_a :: real
  bisection_b :: real
  bisection_initial_interval_length :: real

definition BisectionSolver_init ::
  "(real \<Rightarrow> real) \<Rightarrow> real \<Rightarrow> real \<Rightarrow> real \<Rightarrow> int \<Rightarrow> heap \<Rightarrow> exn + BisectionSolver \<times> heap" where
  "BisectionSolver_init f a b tolerance max_iterations h =
     (case BaseSolver_init f tolerance max_iterations None h of
        (self, h) \<Rightarrow>
     (case evaluate_function self a of
        (fa, self) \<Rightarrow>
     (case evaluate_function self b of
        (fb, self) \<Rightarrow>
          if fa * fb > 0 then Inl ValueError
          else (case (if a > b then (b, a) else (a, b)) of
                  (a, b) \<Rightarrow>
                    Inr (BaseSolver.extend self
                           (BisectionSolver.fields a b \<bar>b - a\<bar>), h)))))"

text \<open>
  The loop variables of \<^verbatim>\<open>solve\<close>: the instance, the store, and \<open>a, b, fa, fb\<close>.
\<close>

type_synonym bisection_vars = "BisectionSolver \<times> heap \<times> real \<times> real \<times> real \<times> real"

definition bisection_prologue :: "BisectionSolver \<Rightarrow> heap \<Rightarrow> bisection_vars" where
  "bisection_prologue self h =
     (case reset_counters self h of
        (self, h) \<Rightarrow>
     (case (bisection_a self, bisection_b self) of
        (a, b) \<Rightarrow>
     (case evaluate_function self a of
        (fa, self) \<Rightarrow>
     (case evaluate_function self b of
        (fb, self) \<Rightarrow>
          (self, add_iteration_result self h 0 a fa (Some \<bar>b - a\<bar>) None, a, b, fa, fb)))))"

definition bisection_body ::
  "int \<Rightarrow> bisection_vars \<Rightarrow> (real SolverResult \<times> BisectionSolver \<times> heap, bisection_vars) flow" where
  "bisection_body iteration vars =
     (case vars of
        (self, h, a, b, fa, fb) \<Rightarrow>
     (let c = (a + b) / 2 in
      case evaluate_function self c of
        (fc, self) \<Rightarrow>
     (let error = \<bar>b - a\<bar> / 2;
          relative_error = error / (\<bar>c\<bar> + 1 / 10 ^ 15);
          h = add_iteration_result self h iteration c fc (Some error) (Some relative_error)
      in if \<bar>fc\<bar> < self_tolerance self \<or> error < self_tolerance self then
           Return (\<lparr>root' = c, iterations = iteration, convergence_achieved = True,
                    final_error = error, iteration_history = self_iteration_history self,
                    method_name = ''Bisection Method'',
                    function_evaluations = self_function_evaluations self\<rparr>, self, h)
         else if fa * fc < 0 then Continue (self, h, a, c, fa, fc)
         else Continue (self, h, c, b, fc, fb))))"

definition bisection_solve ::
  "BisectionSolver \<Rightarrow> heap \<Rightarrow> exn + real SolverResult \<times> BisectionSolver \<times> heap" where
  "bisection_solve self h =
     (case for_range 1 (self_max_iterations self + 1) bisection_body (bisection_prologue self h) of
        Returned r \<Rightarrow> Inr r
      | Raised e \<Rightarrow> Inl e
      | Fell_through (self, h, a, b, fa, fb) \<Rightarrow>
          (let c = (a + b) / 2 in
           Inr (\<lparr>root' = c, iterations = self_max_iterations self, convergence_achieved = False,
                 final_error = \<bar>b - a\<bar> / 2, iteration_history = self_iteration_history self,
                 method_name = ''Bisection Method'',
                 function_evaluations = self_function_evaluations self\<rparr>, self, h)))"

section \<open>False position (src/algorithms/false\_position.py)\<close>

record FalsePositionSolver = "real BaseSolver" +
  false_position_a :: real
  false_position_b :: real

definition FalsePositionSolver_init ::
  "(real \<Rightarrow> real) \<Rightarrow> real \<Rightarrow> real \<Rightarrow> real \<Rightarrow> int \<Rightarrow> heap \<Rightarrow> exn + FalsePositionSolver \<times> heap" where
  "FalsePositionSolver_init f a b tolerance max_iterations h =
     (case BaseSolver_init f tolerance max_iterations None h of
        (self, h) \<Rightarrow>
     (case evaluate_function self a of
        (fa, self) \<Rightarrow>
     (case evaluate_function self b of
        (fb, self) \<Rightarrow>
          if fa * fb > 0 then Inl ValueError
          else (case (if a > b then (b, a) else (a, b)) of
                  (a, b) \<Rightarrow>
                    Inr (BaseSolver.extend self (FalsePositionSolver.fields a b), h)))))"

type_synonym false_position_vars =
  "FalsePositionSolver \<times> heap \<times> real \<times> real \<times> real \<times> real"

definition false_position_prologue :: "FalsePositionSolver \<Rightarrow> heap \<Rightarrow> false_position_vars" where
  "false_position_prologue self h =
     (case reset_counters self h of
        (self, h) \<Rightarrow>
     (case (false_position_a self, false_position_b self) of
        (a, b) \<Rightarrow>
     (case evaluate_function self a of
        (fa, self) \<Rightarrow>
     (case evaluate_function self b of
        (fb, self) \<Rightarrow>
          (self, add_iteration_result self h 0 a fa (Some \<bar>b - a\<bar>) None, a, b, fa, fb)))))"

definition false_position_body ::
  "int \<Rightarrow> false_position_vars \<Rightarrow>
     (real SolverResult \<times> FalsePositionSolver \<times> heap, false_position_vars) flow" where
  "false_position_body iteration vars =
     (case vars of
        (self, h, a, b, fa, fb) \<Rightarrow>
     (case py_div (fa * (b - a)) (fb - fa) of
        Inl e \<Rightarrow> Raise e
      | Inr q \<Rightarrow>
     (let x_new = a - q in
      case evaluate_function self x_new of
        (f_new, self) \<Rightarrow>
     (let error = min \<bar>x_new - a\<bar> \<bar>x_new - b\<bar>;
          relative_error = error / (\<bar>x_new\<bar> + 1 / 10 ^ 15);
          h = add_iteration_result self h iteration x_new f_new (Some error) (Some relative_error)
      in if \<bar>f_new\<bar> < self_tolerance self \<or> error < self_tolerance self then
           Return (\<lparr>root' = x_new, iterations = iteration, convergence_achieved = True,
                    final_error = error, iteration_history = self_iteration_history self,
                    method_name = ''False Position Method (Regula Falsi)'',
                    function_evaluations = self_function_evaluations self\<rparr>, self, h)
         else if fa * f_new < 0 then Continue (self, h, a, x_new, fa, f_new)
         else Continue (self, h, x_new, b, f_new, fb)))))"

definition false_position_solve ::
  "FalsePositionSolver \<Rightarrow> heap \<Rightarrow> exn + real SolverResult \<times> FalsePositionSolver \<times> heap" where
  "false_position_solve self h =
     (case for_range 1 (self_max_iterations self + 1) false_position_body
             (false_position_prologue self h) of
        Returned r \<Rightarrow> Inr r
      | Raised e \<Rightarrow> Inl e
      | Fell_through (self, h, a, b, fa, fb) \<Rightarrow>
          (case py_div (fa * (b - a)) (fb - fa) of
             Inl e \<Rightarrow> Inl e
           | Inr q \<Rightarrow>
               (let x_new = a - q in
                Inr (\<lparr>root' = x_new, iterations = self_max_iterations self,
                      convergence_achieved = False,
                      final_error = min \<bar>x_new - a\<bar> \<bar>x_new - b\<bar>,
                      iteration_history = self_iteration_history self,
                      method_name = ''False Position Method (Regula Falsi)'',
                      function_evaluations = self_function_evaluations self\<rparr>, self, h))))"

section \<open>Newton-Raphson (src/algorithms/newton\_raphson.py)\<close>

text \<open>
  The class \<^verbatim>\<open>NumericalDerivative\<close> declares three static methods and no
  \<^verbatim>\<open>__init__\<close>, so it inherits the constructor of \<^verbatim>\<open>object\<close>: instantiating it with
  an argument raises \<^verbatim>\<open>TypeError\<close>. An instance has no attributes. A static method
  receives exactly the arguments of the call: \<^verbatim>\<open>central_difference(f, x, h=1e-8)\<close>
  called with one positional argument misses \<^verbatim>\<open>x\<close>, and a float in the place of
  \<^verbatim>\<open>f\<close> cannot be called; both are a \<^verbatim>\<open>TypeError\<close>.
\<close>

datatype pyarg = PyFloat real | PyFunction "real \<Rightarrow> real"

definition NumericalDerivative_new :: "pyarg list \<Rightarrow> exn + unit" where
  "NumericalDerivative_new args = (case args of [] \<Rightarrow> Inr () | _ \<Rightarrow> Inl TypeError)"

fun central_difference :: "pyarg list \<Rightarrow> exn + real" where
  "central_difference [PyFunction f, PyFloat x] =
     py_div (f (x + 1 / 10 ^ 8) - f (x - 1 / 10 ^ 8)) (2 * (1 / 10 ^ 8))"
| "central_difference [PyFunction f, PyFloat x, PyFloat h] =
     py_div (f (x + h) - f (x - h)) (2 * h)"
| "central_difference _ = Inl TypeError"

text \<open>
  The attribute \<^verbatim>\<open>numerical_derivative\<close> is set only when no derivative is given:
  \<open>None\<close> stands for the missing attribute.
\<close>

record NewtonRaphsonSolver = "real BaseSolver" +
  newton_initial_guess :: real
  newton_numerical_derivative :: "unit option"

definition NewtonRaphsonSolver_init ::
  "(real \<Rightarrow> real) \<Rightarrow> (real \<Rightarrow> real) option \<Rightarrow> real \<Rightarrow> real \<Rightarrow> int \<Rightarrow> heap \<Rightarrow>
     exn + NewtonRaphsonSolver \<times> heap" where
  "NewtonRaphsonSolver_init f derivative initial_guess tolerance max_iterations h =
     (case BaseSolver_init f tolerance max_iterations None h of
        (self, h) \<Rightarrow>
     (let self = self\<lparr>self_derivative := derivative\<rparr> in
      case self_derivative self of
        None \<Rightarrow>
          (case NumericalDerivative_new [PyFunction (self_function self)] of
             Inl e \<Rightarrow> Inl e
           | Inr numerical_derivative \<Rightarrow>
               Inr (BaseSolver.extend self
                      (NewtonRaphsonSolver.fields initial_guess (Some numerical_derivative)), h))
      | Some d \<Rightarrow>
          Inr (BaseSolver.extend self (NewtonRaphsonSolver.fields initial_guess None), h)))"

definition newton_get_method_name :: "NewtonRaphsonSolver \<Rightarrow> string" where
  "newton_get_method_name self =
     (case self_derivative self of
        Some d \<Rightarrow> ''Newton-Raphson Method (analytical derivative)''
      | None \<Rightarrow> ''Newton-Raphson Method (numerical derivative)'')"

text \<open>
  The override of \<^verbatim>\<open>evaluate_derivative\<close>: the analytical derivative when there is
  one (without counting the evaluation), otherwise
  \<^verbatim>\<open>self.numerical_derivative.central_difference(x)\<close>.
\<close>

definition newton_evaluate_derivative :: "NewtonRaphsonSolver \<Rightarrow> real \<Rightarrow> exn + real" where
  "newton_evaluate_derivative self x =
     (case self_derivative self of
        Some d \<Rightarrow> Inr (d x)
      | None \<Rightarrow>
          (case newton_numerical_derivative self of
             None \<Rightarrow> Inl AttributeError
           | Some numerical_derivative \<Rightarrow> central_difference [PyFloat x]))"

type_synonym newton_vars = "NewtonRaphsonSolver \<times> heap \<times> real \<times> real"

definition newton_result ::
  "NewtonRaphsonSolver \<Rightarrow> real \<Rightarrow> int \<Rightarrow> bool \<Rightarrow> real \<Rightarrow> real SolverResult" where
  "newton_result self x n converged err =
     \<lparr>root' = x, iterations = n, convergence_achieved = converged, final_error = err,
      iteration_history = self_iteration_history self,
      method_name = newton_get_method_name self,
      function_evaluations = self_function_evaluations self\<rparr>"

definition newton_prologue :: "NewtonRaphsonSolver \<Rightarrow> heap \<Rightarrow> newton_vars" where
  "newton_prologue self h =
     (case reset_counters self h of
        (self, h) \<Rightarrow>
     (let x = newton_initial_guess self in
      case evaluate_function self x of
        (f_x, self) \<Rightarrow> (self, add_iteration_result self h 0 x f_x None None, x, f_x)))"

definition newton_body ::
  "int \<Rightarrow> newton_vars \<Rightarrow> (real SolverResult \<times> NewtonRaphsonSolver \<times> heap, newton_vars) flow" where
  "newton_body iteration vars =
     (case vars of
        (self, h, x, f_x) \<Rightarrow>
     (case newton_evaluate_derivative self x of
        Inl e \<Rightarrow> Raise e
      | Inr f_prime_x \<Rightarrow>
          if \<bar>f_prime_x\<bar> < 1 / 10 ^ 15 then
            Return (newton_result self x (iteration - 1) False \<bar>f_x\<bar>, self, h)
          else
     (case py_div f_x f_prime_x of
        Inl e \<Rightarrow> Raise e
      | Inr q \<Rightarrow>
     (let x_new = x - q in
      case evaluate_function self x_new of
        (f_new, self) \<Rightarrow>
     (case calculate_errors x_new x of
        (error, relative_error) \<Rightarrow>
     (let h = add_iteration_result self h iteration x_new f_new (Some error) (Some relative_error)
      in if check_convergence self x_new x f_new then
           Return (newton_result self x_new iteration True error, self, h)
         else if \<bar>x_new\<bar> > 10 ^ 10 then
           Return (newton_result self x_new iteration False error, self, h)
         else Continue (self, h, x_new, f_new)))))))"

definition newton_solve ::
  "NewtonRaphsonSolver \<Rightarrow> heap \<Rightarrow> exn + real SolverResult \<times> NewtonRaphsonSolver \<times> heap" where
  "newton_solve self h =
     (case for_range 1 (self_max_iterations self + 1) newton_body (newton_prologue self h) of
        Returned r \<Rightarrow> Inr r
      | Raised e \<Rightarrow> Inl e
      | Fell_through (self, h, x, f_x) \<Rightarrow>
          Inr (newton_result self x (self_max_iterations self) False \<bar>f_x\<bar>, self, h))"

section \<open>Secant (src/algorithms/secant.py)\<close>

record SecantSolver = "real BaseSolver" +
  secant_x0 :: real
  secant_x1 :: real

definition SecantSolver_init ::
  "(real \<Rightarrow> real) \<Rightarrow> real \<Rightarrow> real \<Rightarrow> real \<Rightarrow> int \<Rightarrow> heap \<Rightarrow> SecantSolver \<times> heap" where
  "SecantSolver_init f x0 x1 tolerance max_iterations h =
     (case BaseSolver_init f tolerance max_iterations None h of
        (self, h) \<Rightarrow> (BaseSolver.extend self (SecantSolver.fields x0 x1), h))"

text \<open>
  The loop variables of \<^verbatim>\<open>solve\<close>. The last component is the local \<^verbatim>\<open>error\<close>, which
  exists only once a pass of the loop has assigned it (\<^verbatim>\<open>'error' in locals()\<close>).
\<close>

type_synonym secant_vars =
  "SecantSolver \<times> heap \<times> real \<times> real \<times> real \<times> real \<times> real option"

definition secant_prologue :: "SecantSolver \<Rightarrow> heap \<Rightarrow> secant_vars" where
  "secant_prologue self h =
     (case reset_counters self h of
        (self, h) \<Rightarrow>
     (case (secant_x0 self, secant_x1 self) of
        (x_prev, x_curr) \<Rightarrow>
     (case evaluate_function self x_prev of
        (f_prev, self) \<Rightarrow>
     (case evaluate_function self x_curr of
        (f_curr, self) \<Rightarrow>
     (let h = add_iteration_result self h 0 x_prev f_prev None None;
          h = add_iteration_result self h 1 x_curr f_curr None None
      in (self, h, x_prev, x_curr, f_prev, f_curr, None))))))"

definition secant_body ::
  "int \<Rightarrow> secant_vars \<Rightarrow> (real SolverResult \<times> SecantSolver \<times> heap, secant_vars) flow" where
  "secant_body iteration vars =
     (case vars of
        (self, h, x_prev, x_curr, f_prev, f_curr, last_error) \<Rightarrow>
          if \<bar>f_curr - f_prev\<bar> < 1 / 10 ^ 15 then Break vars
          else
     (case py_div (f_curr - f_prev) (x_curr - x_prev) of
        Inl e \<Rightarrow> Raise e
      | Inr slope \<Rightarrow>
     (case py_div f_curr slope of
        Inl e \<Rightarrow> Raise e
      | Inr q \<Rightarrow>
     (let x_new = x_curr - q in
      case evaluate_function self x_new of
        (f_new, self) \<Rightarrow>
     (case calculate_errors x_new x_curr of
        (error, relative_error) \<Rightarrow>
     (let h = add_iteration_result self h iteration x_new f_new (Some error) (Some relative_error)
      in if check_convergence self x_new x_curr f_new then
           Return (\<lparr>root' = x_new, iterations = iteration, convergence_achieved = True,
                    final_error = error, iteration_history = self_iteration_history self,
                    method_name = ''Secant Method'',
                    function_evaluations = self_function_evaluations self\<rparr>, self, h)
         else Continue (self, h, x_curr, x_new, f_curr, f_new, Some error)))))))"

definition secant_solve ::
  "SecantSolver \<Rightarrow> heap \<Rightarrow> exn + real SolverResult \<times> SecantSolver \<times> heap" where
  "secant_solve self h =
     (case for_range 2 (self_max_iterations self + 1) secant_body (secant_prologue self h) of
        Returned r \<Rightarrow> Inr r
      | Raised e \<Rightarrow> Inl e
      | Fell_through (self, h, x_prev, x_curr, f_prev, f_curr, last_error) \<Rightarrow>
          Inr (\<lparr>root' = x_curr, iterations = self_max_iterations self,
                convergence_achieved = False,
                final_error = (case last_error of Some error \<Rightarrow> error | None \<Rightarrow> \<bar>f_curr\<bar>),
                iteration_history = self_iteration_history self,
                method_name = ''Secant Method'',
                function_evaluations = self_function_evaluations self\<rparr>, self, h))"

section \<open>Fixed point (src/algorithms/fixed\_point.py)\<close>

text \<open>
  The function supplied by the caller is \<open>g\<close>; the constructor hands
  \<^verbatim>\<open>lambda x: x - g_function(x)\<close> to the base class as \<^verbatim>\<open>self.function\<close>.
  \<^verbatim>\<open>solve\<close> is modelled with \<^verbatim>\<open>verbose=False\<close>, its default.
\<close>

record FixedPointSolver = "real BaseSolver" +
  fixed_point_g_function :: "real \<Rightarrow> real"
  fixed_point_initial_guess :: real

definition FixedPointSolver_init ::
  "(real \<Rightarrow> real) \<Rightarrow> real \<Rightarrow> real \<Rightarrow> int \<Rightarrow> heap \<Rightarrow> FixedPointSolver \<times> heap" where
  "FixedPointSolver_init g initial_guess tolerance max_iterations h =
     (case BaseSolver_init (\<lambda>x. x - g x) tolerance max_iterations None h of
        (self, h) \<Rightarrow> (BaseSolver.extend self (FixedPointSolver.fields g initial_guess), h))"

text \<open>A direct call \<^verbatim>\<open>self.g_function(x)\<close>: the supplied function runs once.\<close>

definition g_function :: "FixedPointSolver \<Rightarrow> real \<Rightarrow> real \<times> FixedPointSolver" where
  "g_function self x =
     (fixed_point_g_function self x, self\<lparr>invocations := invocations self + 1\<rparr>)"

text \<open>
  The loop variables: the instance, the store, \<open>x\<close>, and the locals \<^verbatim>\<open>f_new\<close> and
  \<^verbatim>\<open>error\<close>, which exist only once a pass of the loop has assigned them.
\<close>

type_synonym fixed_point_vars =
  "FixedPointSolver \<times> heap \<times> real \<times> real option \<times> real option"

definition fixed_point_prologue :: "FixedPointSolver \<Rightarrow> heap \<Rightarrow> fixed_point_vars" where
  "fixed_point_prologue self h =
     (case reset_counters self h of
        (self, h) \<Rightarrow>
     (let x = fixed_point_initial_guess self in
      case g_function self x of
        (g_x, self) \<Rightarrow>
     (let f_x = x - g_x in
      (self, add_iteration_result self h 0 x f_x None None, x, None, None))))"

definition fixed_point_body ::
  "int \<Rightarrow> fixed_point_vars \<Rightarrow>
     (real SolverResult \<times> FixedPointSolver \<times> heap, fixed_point_vars) flow" where
  "fixed_point_body iteration vars =
     (case vars of
        (self, h, x, last_f_new, last_error) \<Rightarrow>
     (case g_function self x of
        (x_new, self) \<Rightarrow>
     (let self = self\<lparr>self_function_evaluations := self_function_evaluations self + 1\<rparr> in
      case g_function self x_new of
        (g_x_new, self) \<Rightarrow>
     (let f_new = x_new - g_x_new in
      case calculate_errors x_new x of
        (error, relative_error) \<Rightarrow>
     (let h = add_iteration_result self h iteration x_new f_new (Some error) (Some relative_error)
      in if error < self_tolerance self \<or> \<bar>f_new\<bar> < self_tolerance self then
           Return (\<lparr>root' = x_new, iterations = iteration, convergence_achieved = True,
                    final_error = error, iteration_history = self_iteration_history self,
                    method_name = ''Fixed-Point Method (Method of Successive Approximation)'',
                    function_evaluations = self_function_evaluations self\<rparr>, self, h)
         else if \<bar>x_new\<bar> > 10 ^ 10 then
           Return (\<lparr>root' = x_new, iterations = iteration, convergence_achieved = False,
                    final_error = error, iteration_history = self_iteration_history self,
                    method_name = ''Fixed-Point Method (Method of Successive Approximation)'',
                    function_evaluations = self_function_evaluations self\<rparr>, self, h)
         else Continue (self, h, x_new, Some f_new, Some error))))))"

definition fixed_point_solve ::
  "FixedPointSolver \<Rightarrow> heap \<Rightarrow> exn + real SolverResult \<times> FixedPointSolver \<times> heap" where
  "fixed_point_solve self h =
     (case for_range 1 (self_max_iterations self + 1) fixed_point_body
             (fixed_point_prologue self h) of
        Returned r \<Rightarrow> Inr r
      | Raised e \<Rightarrow> Inl e
      | Fell_through (self, h, x, last_f_new, last_error) \<Rightarrow>
          (case (case last_error of
                   Some error \<Rightarrow> Inr error
                 | None \<Rightarrow> (case last_f_new of Some f_new \<Rightarrow> Inr \<bar>f_new\<bar> | None \<Rightarrow> Inl NameError)) of
             Inl e \<Rightarrow> Inl e
           | Inr err \<Rightarrow>
               Inr (\<lparr>root' = x, iterations = self_max_iterations self,
                     convergence_achieved = False, final_error = err,
                     iteration_history = self_iteration_history self,
                     method_name = ''Fixed-Point Method (Method of Successive Approximation)'',
                     function_evaluations = self_function_evaluations self\<rparr>, self, h)))"

section \<open>Muller (src/algorithms/muller.py)\<close>

text \<open>
  Muller's method works on complex numbers: \<^verbatim>\<open>abs\<close> is the modulus, \<^verbatim>\<open>cmath.sqrt\<close> the
  principal square root. The reported root is the real part when the imaginary part is
  below \<open>1e-10\<close> in magnitude, the complex number otherwise.
\<close>

datatype pyroot = RealRoot real | ComplexRoot complex

definition muller_root :: "complex \<Rightarrow> pyroot" where
  "muller_root z = (if \<bar>Im z\<bar> < 1 / 10 ^ 10 then RealRoot (Re z) else ComplexRoot z)"

text \<open>The method name \<^verbatim>\<open>"Muller's Method"\<close>, with its apostrophe (character 39).\<close>

definition muller_get_method_name :: string where
  "muller_get_method_name = ''Muller'' @ [char_of (39::nat)] @ ''s Method''"

record MullerSolver = "complex BaseSolver" +
  muller_x0 :: complex
  muller_x1 :: complex
  muller_x2 :: complex

definition MullerSolver_init ::
  "(complex \<Rightarrow> complex) \<Rightarrow> complex \<Rightarrow> complex \<Rightarrow> complex \<Rightarrow> real \<Rightarrow> int \<Rightarrow> heap \<Rightarrow>
     MullerSolver \<times> heap" where
  "MullerSolver_init f x0 x1 x2 tolerance max_iterations h =
     (case BaseSolver_init f tolerance max_iterations None h of
        (self, h) \<Rightarrow> (BaseSolver.extend self (MullerSolver.fields x0 x1 x2), h))"

text \<open>
  The loop variables: the instance, the store, the three points, their function values,
  and the local \<^verbatim>\<open>error\<close> once a pass of the loop has assigned it.
\<close>

type_synonym muller_vars =
  "MullerSolver \<times> heap \<times> (complex \<times> complex \<times> complex) \<times> (complex \<times> complex \<times> complex) \<times> real option"

definition muller_prologue :: "MullerSolver \<Rightarrow> heap \<Rightarrow> muller_vars" where
  "muller_prologue self h =
     (case reset_counters self h of
        (self, h) \<Rightarrow>
     (case (muller_x0 self, muller_x1 self, muller_x2 self) of
        (x0, x1, x2) \<Rightarrow>
     (case evaluate_function self x0 of
        (f0, self) \<Rightarrow>
     (case evaluate_function self x1 of
        (f1, self) \<Rightarrow>
     (case evaluate_function self x2 of
        (f2, self) \<Rightarrow>
     (let h = add_iteration_result self h 0 (Re x0) (cmod f0) None None;
          h = add_iteration_result self h 1 (Re x1) (cmod f1) None None;
          h = add_iteration_result self h 2 (Re x2) (cmod f2) None None
      in (self, h, (x0, x1, x2), (f0, f1, f2), None)))))))"

definition muller_body ::
  "int \<Rightarrow> muller_vars \<Rightarrow> (pyroot SolverResult \<times> MullerSolver \<times> heap, muller_vars) flow" where
  "muller_body iteration vars =
     (case vars of
        (self, h, (x0, x1, x2), (f0, f1, f2), last_error) \<Rightarrow>
     (let h0 = x1 - x0; h1 = x2 - x1 in
      if cmod h0 < 1 / 10 ^ 15 \<or> cmod h1 < 1 / 10 ^ 15 then Break vars
      else
     (case py_div (f1 - f0) h0 of
        Inl e \<Rightarrow> Raise e
      | Inr delta0 \<Rightarrow>
     (case py_div (f2 - f1) h1 of
        Inl e \<Rightarrow> Raise e
      | Inr delta1 \<Rightarrow>
     (case py_div (delta1 - delta0) (h1 + h0) of
        Inl e \<Rightarrow> Raise e
      | Inr a \<Rightarrow>
     (let b = a * h1 + delta1;
          c = f2;
          discriminant = b\<^sup>2 - 4 * a * c;
          denominator = (if cmod (b + csqrt discriminant) > cmod (b - csqrt discriminant)
                         then b + csqrt discriminant else b - csqrt discriminant)
      in if cmod denominator < 1 / 10 ^ 15 then Break vars
         else
     (case py_div (- 2 * c) denominator of
        Inl e \<Rightarrow> Raise e
      | Inr dx \<Rightarrow>
     (let x_new = x2 + dx in
      case evaluate_function self x_new of
        (f_new, self) \<Rightarrow>
     (let error = cmod dx;
          relative_error = error / (cmod x_new + 1 / 10 ^ 15);
          h = add_iteration_result self h iteration (Re x_new) (cmod f_new)
                (Some error) (Some relative_error)
      in if error < self_tolerance self \<or> cmod f_new < self_tolerance self then
           Return (\<lparr>root' = muller_root x_new, iterations = iteration,
                    convergence_achieved = True, final_error = error,
                    iteration_history = self_iteration_history self,
                    method_name = muller_get_method_name,
                    function_evaluations = self_function_evaluations self\<rparr>, self, h)
         else if cmod x_new > 10 ^ 10 then
           Return (\<lparr>root' = muller_root x_new, iterations = iteration,
                    convergence_achieved = False, final_error = error,
                    iteration_history = self_iteration_history self,
                    method_name = muller_get_method_name,
                    function_evaluations = self_function_evaluations self\<rparr>, self, h)
         else Continue (self, h, (x1, x2, x_new), (f1, f2, f_new), Some error))))))))))"

definition muller_solve ::
  "MullerSolver \<Rightarrow> heap \<Rightarrow> exn + pyroot SolverResult \<times> MullerSolver \<times> heap" where
  "muller_solve self h =
     (case for_range 3 (self_max_iterations self + 1) muller_body (muller_prologue self h) of
        Returned r \<Rightarrow> Inr r
      | Raised e \<Rightarrow> Inl e
      | Fell_through (self, h, (x0, x1, x2), (f0, f1, f2), last_error) \<Rightarrow>
          (let final_x = x2 in
           Inr (\<lparr>root' = muller_root final_x, iterations = self_max_iterations self,
                 convergence_achieved = False,
                 final_error = (case last_error of Some error \<Rightarrow> error | None \<Rightarrow> cmod f2),
                 iteration_history = self_iteration_history self,
                 method_name = muller_get_method_name,
                 function_evaluations = self_function_evaluations self\<rparr>, self, h)))"

section \<open>Horner's rule against the direct evaluation\<close>

lemma direct_sum_Cons:
  "(\<Sum>i < Suc (length cs). (c # cs) ! i * (x::real) ^ (length cs - i)) =
     c * x ^ length cs + (\<Sum>i < length cs. cs ! i * x ^ (length cs - Suc i))"
  unfolding sum.lessThan_Suc_shift by simp

lemma horner_fold_direct:
  "foldl (\<lambda>result coefficient. result * x + coefficient) acc cs =
     acc * (x::real) ^ length cs + (\<Sum>i < length cs. cs ! i * x ^ (length cs - 1 - i))"
proof (induction cs arbitrary: acc)
  case Nil
  show ?case by simp
next
  case (Cons c cs)
  have "foldl (\<lambda>result coefficient. result * x + coefficient) acc (c # cs) =
          (acc * x + c) * x ^ length cs + (\<Sum>i < length cs. cs ! i * x ^ (length cs - 1 - i))"
    using Cons.IH [of "acc * x + c"] by simp
  also have "\<dots> = acc * x ^ length (c # cs) +
          (\<Sum>i < length (c # cs). (c # cs) ! i * x ^ (length (c # cs) - 1 - i))"
    using direct_sum_Cons [of c cs x] by (simp add: algebra_simps del: sum.lessThan_Suc)
  finally show ?case .
qed

lemma horners_rule_eq_direct: "horners_rule coefficients x = direct_evaluation coefficients x"
proof (cases coefficients)
  case Nil
  then show ?thesis by (simp add: horners_rule_def direct_evaluation_def)
next
  case (Cons c cs)
  then show ?thesis
    using direct_sum_Cons [of c cs x]
    by (simp add: horners_rule_def direct_evaluation_def horner_fold_direct
          del: sum.lessThan_Suc)
qed

text \<open>
  C9. For every coefficient list and every \<open>x\<close>, \<open>horners_rule\<close> equals the direct
  evaluation of the polynomial (the sum of coefficient times power), and the empty
  coefficient list yields 0.
\<close>

theorem horners_rule_direct_evaluation:
  "horners_rule coefficients x = direct_evaluation coefficients x \<and> horners_rule [] x = 0"
proof -
  have "horners_rule [] x = 0"
    by (simp add: horners_rule_def)
  then show ?thesis
    by (simp add: horners_rule_eq_direct)
qed

section \<open>Synthetic division and deflation\<close>

lemma horners_rule_snoc:
  "horners_rule (cs @ [c]) x = horners_rule cs x * x + c"
  by (cases cs) (simp_all add: horners_rule_def)

text \<open>
  The loop invariant of synthetic division: dividing out \<open>x - r\<close> commutes with the
  Horner accumulation over the coefficients still to come.
\<close>

lemma synthetic_fold_invariant:
  assumes "q \<noteq> []"
  shows "horners_rule (butlast (foldl (\<lambda>q ci. q @ [ci + last q * r]) q cs)) x * (x - r)
           + last (foldl (\<lambda>q ci. q @ [ci + last q * r]) q cs) =
         foldl (\<lambda>result coefficient. result * x + coefficient)
           (horners_rule (butlast q) x * (x - r) + last q) cs"
  using assms
proof (induction cs arbitrary: q)
  case Nil
  show ?case by simp
next
  case (Cons c cs)
  have q: "horners_rule q x = horners_rule (butlast q) x * x + last q"
    using horners_rule_snoc [of "butlast q" "last q" x] Cons.prems by simp
  let ?q' = "q @ [c + last q * r]"
  have IH: "horners_rule (butlast (foldl (\<lambda>q ci. q @ [ci + last q * r]) ?q' cs)) x * (x - r)
              + last (foldl (\<lambda>q ci. q @ [ci + last q * r]) ?q' cs) =
            foldl (\<lambda>result coefficient. result * x + coefficient)
              (horners_rule (butlast ?q') x * (x - r) + last ?q') cs"
    by (rule Cons.IH) simp
  have acc: "horners_rule (butlast ?q') x * (x - r) + last ?q' =
          (horners_rule (butlast q) x * (x - r) + last q) * x + c"
    by (simp add: q algebra_simps)
  show ?case
    by (simp only: foldl_Cons IH acc)
qed

lemma synthetic_division_identity:
  "horners_rule coefficients x =
     (x - r) * horners_rule (fst (synthetic_division coefficients r)) x
       + snd (synthetic_division coefficients r)"
proof (cases coefficients)
  case Nil
  then show ?thesis by (simp add: synthetic_division_def horners_rule_def)
next
  case (Cons c cs)
  show ?thesis
  proof (cases cs)
    case Nil
    with Cons show ?thesis by (simp add: synthetic_division_def horners_rule_def)
  next
    case (Cons d ds)
    have "horners_rule (c # cs) x =
            foldl (\<lambda>result coefficient. result * x + coefficient)
              (horners_rule (butlast [c]) x * (x - r) + last [c]) cs"
      by (simp add: horners_rule_def)
    also have "\<dots> =
            horners_rule (butlast (foldl (\<lambda>q ci. q @ [ci + last q * r]) [c] cs)) x * (x - r)
              + last (foldl (\<lambda>q ci. q @ [ci + last q * r]) [c] cs)"
      using synthetic_fold_invariant [of "[c]" r cs x] by simp
    finally show ?thesis
      using \<open>coefficients = c # cs\<close> Cons
      by (simp add: synthetic_division_def Let_def algebra_simps)
  qed
qed

lemma synthetic_division_remainder:
  "snd (synthetic_division coefficients r) = horners_rule coefficients r"
  using synthetic_division_identity [where coefficients = coefficients and x = r and r = r]
  by simp

text \<open>
  C8. For every non-empty coefficient list, every \<open>r\<close> and every \<open>x\<close>, the value of the
  polynomial at \<open>x\<close> is \<open>(x - r)\<close> times the value of the quotient at \<open>x\<close> plus the
  remainder of \<open>synthetic_division coeffs r\<close>; a single coefficient gives the empty
  quotient and that coefficient as remainder; and dividing \<open>[1, -6, 11, -6]\<close> by
  \<open>x - 1\<close> gives the quotient \<open>[1, -5, 6]\<close> and the remainder 0.
\<close>

theorem synthetic_division_correct:
  "(coeffs \<noteq> [] \<longrightarrow>
      (case synthetic_division coeffs r of
         (quotient', remainder) \<Rightarrow>
           horners_rule coeffs x = (x - r) * horners_rule quotient' x + remainder))
   \<and> synthetic_division [c] r = ([], c)
   \<and> synthetic_division [1, -6, 11, -6] 1 = ([1, -5, 6], 0)"
proof -
  have "case synthetic_division coeffs r of
          (quotient', remainder) \<Rightarrow>
            horners_rule coeffs x = (x - r) * horners_rule quotient' x + remainder"
    using synthetic_division_identity [where coefficients = coeffs and x = x and r = r]
    by (simp add: case_prod_beta)
  moreover have "synthetic_division [c] r = ([], c)"
    by (simp add: synthetic_division_def)
  moreover have "synthetic_division [1, -6, 11, -6] 1 = ([1, -5, 6], 0)"
    by (simp add: synthetic_division_def)
  ultimately show ?thesis by simp
qed

theorem synthetic_division_correct_witness:
  "[2, -3, 1] \<noteq> ([]::real list)
   \<and> synthetic_division [2, -3, 1] 2 = ([2, 1], 3)
   \<and> horners_rule [2, -3, 1] 5 = (5 - 2) * horners_rule [2, 1] 5 + 3
   \<and> synthetic_division [7] 2 = ([], 7)"
proof -
  have sd: "synthetic_division [2, -3, 1] 2 = ([2, 1], 3)"
    by (simp add: synthetic_division_def)
  have "horners_rule [2, -3, 1] 5 = (5 - 2) * horners_rule [2, 1] 5 + 3"
    using synthetic_division_correct [where coeffs = "[2, -3, 1]" and r = 2 and x = 5 and c = 7]
    by (simp add: sd)
  moreover have "synthetic_division [7] 2 = ([], 7)"
    using synthetic_division_correct [where coeffs = "[2, -3, 1]" and r = 2 and x = 5 and c = 7]
    by simp
  ultimately show ?thesis using sd by simp
qed

text \<open>
  C10. \<open>deflate_polynomial coeffs r tol\<close> fails with the not-a-root error exactly when
  the absolute value of the polynomial at \<open>r\<close> exceeds \<open>tol\<close>; whenever it returns, it
  returns the quotient of \<open>synthetic_division coeffs r\<close>, and it does return when the
  value is within \<open>tol\<close>; the remainder of the synthetic division equals the value of
  the polynomial at \<open>r\<close>, so the remainder error is never raised.
\<close>

theorem deflate_polynomial_cases:
  "((\<exists>v. deflate_polynomial coeffs r tol = Inl (NotARoot r v))
      \<longleftrightarrow> \<bar>direct_evaluation coeffs r\<bar> > tol)
   \<and> (\<forall>q. deflate_polynomial coeffs r tol = Inr q \<longrightarrow> q = fst (synthetic_division coeffs r))
   \<and> (\<bar>direct_evaluation coeffs r\<bar> \<le> tol \<longrightarrow>
        deflate_polynomial coeffs r tol = Inr (fst (synthetic_division coeffs r)))
   \<and> snd (synthetic_division coeffs r) = direct_evaluation coeffs r
   \<and> (\<forall>v. deflate_polynomial coeffs r tol \<noteq> Inl (NonZeroRemainder v))"
proof -
  have p: "direct_evaluation coeffs r = horners_rule coeffs r"
    by (simp add: horners_rule_eq_direct)
  have rem: "snd (synthetic_division coeffs r) = horners_rule coeffs r"
    by (rule synthetic_division_remainder)
  show ?thesis
  proof (cases "\<bar>horners_rule coeffs r\<bar> > tol")
    case True
    then show ?thesis
      by (simp add: deflate_polynomial_def p rem)
  next
    case False
    then have "deflate_polynomial coeffs r tol = Inr (fst (synthetic_division coeffs r))"
      using rem by (simp add: deflate_polynomial_def case_prod_beta)
    with False show ?thesis
      by (simp add: p rem)
  qed
qed

theorem deflate_polynomial_cases_witness:
  "\<bar>direct_evaluation [1, -6, 11, -6] 1\<bar> \<le> 1 / 10 ^ 10
   \<and> deflate_polynomial [1, -6, 11, -6] 1 (1 / 10 ^ 10) = Inr [1, -5, 6]
   \<and> 1 / 10 ^ 10 < \<bar>direct_evaluation [1, -6, 11, -6] 4\<bar>
   \<and> (\<exists>v. deflate_polynomial [1, -6, 11, -6] 4 (1 / 10 ^ 10) = Inl (NotARoot 4 v))"
proof -
  have v1: "direct_evaluation [1, -6, 11, -6] 1 = 0"
    using horners_rule_eq_direct [of "[1, -6, 11, -6]" 1] by (simp add: horners_rule_def)
  have v4: "direct_evaluation [1, -6, 11, -6] 4 = 6"
    using horners_rule_eq_direct [of "[1, -6, 11, -6]" 4] by (simp add: horners_rule_def)
  have sd: "fst (synthetic_division [1, -6, 11, -6] 1) = [1, -5, 6]"
    by (simp add: synthetic_division_def)
  have le: "\<bar>direct_evaluation [1, -6, 11, -6] 1\<bar> \<le> 1 / 10 ^ 10"
    by (simp add: v1)
  have gt: "1 / 10 ^ 10 < \<bar>direct_evaluation [1, -6, 11, -6] 4\<bar>"
    by (simp add: v4)
  have "deflate_polynomial [1, -6, 11, -6] 1 (1 / 10 ^ 10) =
          Inr (fst (synthetic_division [1, -6, 11, -6] 1))"
    using deflate_polynomial_cases [where coeffs = "[1, -6, 11, -6]" and r = 1 and tol = "1 / 10 ^ 10"]
      le by blast
  then have d1: "deflate_polynomial [1, -6, 11, -6] 1 (1 / 10 ^ 10) = Inr [1, -5, 6]"
    by (simp only: sd)
  have d4: "\<exists>v. deflate_polynomial [1, -6, 11, -6] 4 (1 / 10 ^ 10) = Inl (NotARoot 4 v)"
    using deflate_polynomial_cases [where coeffs = "[1, -6, 11, -6]" and r = 4 and tol = "1 / 10 ^ 10"]
      gt by blast
  from le d1 gt d4 show ?thesis by blast
qed

section \<open>The derivative accumulator of Horner's rule\<close>

text \<open>
  C4. \<open>horners_rule_with_derivative\<close> is documented to return the value of the
  polynomial together with the value of its derivative. On the coefficients
  \<open>[1, 0, 0]\<close> (the polynomial \<open>x\<^sup>2\<close>) at \<open>x = 3\<close> it returns \<open>(9, 3)\<close>: the second
  component is \<open>x\<close>, whereas the derivative, evaluated from the coefficients that
  \<open>polynomial_derivative_coefficients\<close> computes, is \<open>2 * 3 = 6\<close>.
\<close>

theorem horners_rule_with_derivative_square:
  "horners_rule_with_derivative [1, 0, 0] 3 = (9, 3)
   \<and> polynomial_derivative_coefficients [1, 0, 0] = [2, 0]
   \<and> horners_rule (polynomial_derivative_coefficients [1, 0, 0]) 3 = 6"
  by (simp add: horners_rule_with_derivative_def horners_rule_def
        polynomial_derivative_coefficients_def)

section \<open>Runs of the solvers\<close>

lemmas base_defs = BaseSolver_init_def new_list_def list_append_def list_clear_def
  evaluate_function_def reset_counters_def check_convergence_def calculate_errors_def
  add_iteration_result_def py_div_def BaseSolver.defs Let_def

lemmas bisection_defs = BisectionSolver_init_def BisectionSolver.defs bisection_prologue_def
  bisection_body_def bisection_solve_def

lemmas false_position_defs = FalsePositionSolver_init_def FalsePositionSolver.defs
  false_position_prologue_def false_position_body_def false_position_solve_def

lemmas newton_defs = NewtonRaphsonSolver_init_def NewtonRaphsonSolver.defs
  NumericalDerivative_new_def newton_evaluate_derivative_def newton_get_method_name_def
  newton_result_def newton_prologue_def newton_body_def newton_solve_def

lemmas secant_defs = SecantSolver_init_def SecantSolver.defs secant_prologue_def
  secant_body_def secant_solve_def

lemmas fixed_point_defs = FixedPointSolver_init_def FixedPointSolver.defs g_function_def
  fixed_point_prologue_def fixed_point_body_def fixed_point_solve_def

lemmas muller_defs = MullerSolver_init_def MullerSolver.defs muller_root_def
  muller_prologue_def muller_body_def muller_solve_def

text \<open>
  C1. A \<open>NewtonRaphsonSolver\<close> constructed without an analytical derivative is meant
  to fall back on the central difference. In the code the constructor calls
  \<^verbatim>\<open>NumericalDerivative(self.function)\<close> on a class without \<^verbatim>\<open>__init__\<close>: for every
  function, initial guess, tolerance and iteration bound the construction raises
  \<^verbatim>\<open>TypeError\<close>, and the call \<^verbatim>\<open>central_difference(x)\<close> that \<^verbatim>\<open>evaluate_derivative\<close>
  would make raises \<^verbatim>\<open>TypeError\<close> as well.
\<close>

theorem newton_without_derivative_raises:
  "NewtonRaphsonSolver_init f None initial_guess tolerance max_iterations h = Inl TypeError
   \<and> central_difference [PyFloat x] = Inl TypeError"
  by (simp add: newton_defs base_defs)

text \<open>
  C2. A \<open>SolverResult\<close> holds the history list of its solver by reference. After
  \<open>solve\<close> on the bisection solver for \<open>x - 1\<close> on \<open>[0, 3]\<close> with tolerance \<open>1/2\<close>, the
  result reports 2 iterations and its history has 3 entries; a second \<open>solve\<close> with the
  configuration unchanged gives the same result and the same history; but
  \<open>reset_counters\<close> on the instance empties the history of the result already returned,
  and a later \<open>solve\<close> after the tolerance of the instance was set to 1 leaves that
  result, which still reports 2 iterations, with a history of 2 entries.
\<close>

theorem solver_result_history_shared:
  "(case BisectionSolver_init (\<lambda>x. x - 1) 0 3 (1 / 2) 100 [] of
      Inl e \<Rightarrow> False
    | Inr (self, h) \<Rightarrow>
        (case bisection_solve self h of
           Inl e \<Rightarrow> False
         | Inr (r1, self1, h1) \<Rightarrow>
             iterations r1 = 2
             \<and> map ir_iteration (h1 ! iteration_history r1) = [0, 1, 2]
             \<and> (case bisection_solve self1 h1 of
                   Inl e \<Rightarrow> False
                 | Inr (r2, self2, h2) \<Rightarrow> r2 = r1 \<and> h2 = h1)
             \<and> (case reset_counters self1 h1 of
                   (self2, h2) \<Rightarrow> h2 ! iteration_history r1 = [])
             \<and> (case bisection_solve (self1\<lparr>self_tolerance := 1\<rparr>) h1 of
                   Inl e \<Rightarrow> False
                 | Inr (r2, self2, h2) \<Rightarrow>
                     iteration_history r2 = iteration_history r1
                     \<and> map ir_iteration (h2 ! iteration_history r1) = [0, 1])))"
  by (simp add: bisection_defs base_defs for_range.simps)

text \<open>
  C3. The secant solver on \<open>x * x - 4\<close> from \<open>x0 = -5/2\<close>, \<open>x1 = 1\<close> with bound 100 performs
  the pass of index 2, stops at the pass of index 3 because the two function values
  coincide, and reports \<open>iterations = 100\<close> without convergence, with a history of
  indices 0, 1, 2. Muller's solver on \<open>z * z + 1\<close> from the points 0, 0, 1 stops at its
  first pass (index 3) because two points coincide and reports \<open>iterations = 100\<close>,
  with a history of indices 0, 1, 2. In both cases the reported count is the bound, not
  the number of iterations run.
\<close>

theorem early_stop_reports_max_iterations:
  "(case SecantSolver_init (\<lambda>x. x * x - 4) (- 5 / 2) 1 (1 / 10 ^ 6) 100 [] of
      (self, h) \<Rightarrow>
        (case secant_solve self h of
           Inl e \<Rightarrow> False
         | Inr (r, self', h') \<Rightarrow>
             iterations r = 100 \<and> convergence_achieved r = False
             \<and> map ir_iteration (h' ! iteration_history r) = [0, 1, 2]))
   \<and> (case MullerSolver_init (\<lambda>z. z * z + 1) 0 0 1 (1 / 10 ^ 6) 100 [] of
         (self, h) \<Rightarrow>
           muller_body 3 (muller_prologue self h) = Break (muller_prologue self h)
           \<and> (case muller_solve self h of
                 Inl e \<Rightarrow> False
               | Inr (r, self', h') \<Rightarrow>
                   iterations r = 100 \<and> convergence_achieved r = False
                   \<and> map ir_iteration (h' ! iteration_history r) = [0, 1, 2]))"
  by (simp add: secant_defs muller_defs base_defs for_range.simps)

text \<open>
  C5. The bracket \<open>[0, 1]\<close> of \<open>x * (x - 1)\<close> is accepted by the constructor of the
  false position solver, since the product of the end values is 0. \<open>solve\<close> then
  divides by \<open>f(b) - f(a) = 0\<close> in its first pass and raises \<^verbatim>\<open>ZeroDivisionError\<close>
  instead of returning a result.
\<close>

theorem false_position_zero_denominator_raises:
  "(case FalsePositionSolver_init (\<lambda>x. x * (x - 1)) 0 1 (1 / 10 ^ 6) 100 [] of
      Inl e \<Rightarrow> False
    | Inr (self, h) \<Rightarrow> false_position_solve self h = Inl ZeroDivisionError)"
  by (simp add: false_position_defs base_defs for_range.simps)

text \<open>
  C6. The fixed point solver calls \<open>g\<close> directly and counts one evaluation per pass.
  For \<open>g x = x / 2 + 1\<close> from 0 with tolerance \<open>1/10\<close>, \<open>solve\<close> converges in 4
  iterations and reports \<open>function_evaluations = 4\<close>, while \<open>g\<close> has been called 9
  times: once before the loop and twice in each pass.
\<close>

theorem fixed_point_evaluations_undercounted:
  "(case FixedPointSolver_init (\<lambda>x. x / 2 + 1) 0 (1 / 10) 100 [] of
      (self, h) \<Rightarrow>
        invocations self = 0
        \<and> (case fixed_point_solve self h of
              Inl e \<Rightarrow> False
            | Inr (r, self', h') \<Rightarrow>
                iterations r = 4 \<and> convergence_achieved r = True
                \<and> function_evaluations r = 4 \<and> invocations self' = 9))"
  by (simp add: fixed_point_defs base_defs for_range.simps)

text \<open>
  One pass of the bisection loop that goes on keeps \<open>fa * fb \<le> 0\<close> provided the
  value at the left end is not zero: the test \<^verbatim>\<open>fa * fc < 0\<close> then tells the side of
  the sign change.
\<close>

lemma bisection_body_keeps_bracket:
  assumes "bisection_body iteration (self, h, a, b, fa, fb) =
             Continue (self', h', a', b', fa', fb')"
    and "fa * fb \<le> 0" and "fa \<noteq> 0"
  shows "fa' * fb' \<le> 0"
proof -
  let ?fc = "self_function self ((a + b) / 2)"
  from assms(1) have "(fa' = fa \<and> fb' = ?fc \<and> fa * ?fc < 0)
      \<or> (fa' = ?fc \<and> fb' = fb \<and> \<not> fa * ?fc < 0)"
    by (auto simp add: bisection_body_def evaluate_function_def Let_def split: if_splits)
  then show ?thesis
    using assms(2,3)
    by (auto simp: mult_le_0_iff mult_less_0_iff not_less zero_le_mult_iff)
qed

text \<open>
  C7. The bisection solver accepts the bracket \<open>[0, 2]\<close> of the identity function,
  whose left end is a root. On entry to the first pass \<open>f(a) * f(b) = 0\<close>; the pass
  takes the midpoint 1, and since \<open>f(a) * f(c) = 0\<close> is not negative it replaces \<open>a\<close>:
  the new end points are 1 and 2, with \<open>f(a) * f(b) = 2 > 0\<close>. With tolerance \<open>1/4\<close>
  the run then reports convergence at \<open>15/8\<close>.
\<close>

theorem bisection_bracket_lost:
  "(case BisectionSolver_init (\<lambda>x. x) 0 2 (1 / 4) 100 [] of
      Inl e \<Rightarrow> False
    | Inr (self, h) \<Rightarrow>
        (case bisection_prologue self h of
           (self0, h0, a, b, fa, fb) \<Rightarrow>
             (a, b) = (0, 2) \<and> fa * fb = 0
             \<and> (case bisection_body 1 (self0, h0, a, b, fa, fb) of
                   Continue (self1, h1, a', b', fa', fb') \<Rightarrow>
                     (a', b') = (1, 2) \<and> fa' * fb' = 2
                     \<and> self_function self a' * self_function self b' = 2
                 | _ \<Rightarrow> False))
        \<and> (case bisection_solve self h of
              Inl e \<Rightarrow> False
            | Inr (r, self', h') \<Rightarrow>
                root' r = 15 / 8 \<and> convergence_achieved r = True))"
  by (simp add: bisection_defs base_defs for_range.simps)

end
